theory Spec2Isabelle
  imports Main
begin

section \<open>Pydantic model declarations\<close>

text \<open>
  The module \<^verbatim>\<open>examples/tripit/tripit_entity_types.py\<close> declares thirty classes deriving
  from \<^verbatim>\<open>BaseModel\<close> and three dictionaries.  A class body is a sequence of annotated
  assignments \<^verbatim>\<open>name: T | None = Field(None, description='...')\<close>.  The annotation is a
  union of Python types, written here as the list of its members in source order.  The
  type \<^verbatim>\<open>int\<close> is part of the annotation language although this module never uses it.
\<close>

datatype py_type = PyStr | PyBool | PyFloat | PyInt | PyNoneType

text \<open>
  Values that occur as the first argument of \<^verbatim>\<open>Field\<close>.  \<^verbatim>\<open>Field(...)\<close> with the ellipsis
  marks a field without default, which the constructor then requires.
\<close>

datatype py_value = NoneV | StrV string | BoolV bool

datatype field_default = Required | Default py_value

record field_info =
  f_name :: string
  f_annotation :: "py_type list"
  f_default :: field_default
  f_description :: string

text \<open>
  A class is its name and its fields in declaration order.  Docstrings are documentation
  only and are left out.
\<close>

record model_class =
  c_name :: string
  c_fields :: "field_info list"

text \<open>
  The declared semantic type of a field: the members of its annotation other than
  \<^verbatim>\<open>None\<close>.
\<close>

definition semantic_types :: "field_info \<Rightarrow> py_type list" where
  "semantic_types f = filter (\<lambda>t. t \<noteq> PyNoneType) (f_annotation f)"

text \<open>
  A field is optional when \<^verbatim>\<open>None\<close> is a member of its annotation and its default
  is \<^verbatim>\<open>None\<close>.
\<close>

definition is_optional :: "field_info \<Rightarrow> bool" where
  "is_optional f \<longleftrightarrow> PyNoneType \<in> set (f_annotation f) \<and> f_default f = Default NoneV"

text \<open>
  Calling a model class with keyword arguments for the attributes named in \<open>given\<close>: every
  other field takes its default (defaults are not validated), and a field that has none is
  reported missing by a validation error.  The module declares no validators, so fields do
  not constrain one another.
\<close>

datatype error = ValidationError "string list"

type_synonym model_instance = "(string \<times> py_value) list"

definition missing_fields :: "model_class \<Rightarrow> string list \<Rightarrow> string list" where
  "missing_fields c given =
     map f_name (filter (\<lambda>f. f_default f = Required \<and> f_name f \<notin> set given) (c_fields c))"

text \<open>
  The call with no keyword arguments at all, \<^verbatim>\<open>Cls()\<close>.  An instance is the list of its
  attribute values by field name.
\<close>

definition construct_empty :: "model_class \<Rightarrow> error + model_instance" where
  "construct_empty c =
     (if missing_fields c [] = []
      then Inr (map (\<lambda>f. (f_name f, case f_default f of Default v \<Rightarrow> v | Required \<Rightarrow> NoneV))
                    (c_fields c))
      else Inl (ValidationError (missing_fields c [])))"

text \<open>
  A dictionary display \<^verbatim>\<open>{k1: v1, k2: v2, ...}\<close> stores its items from left to right,
  a later item replacing an earlier one with the same key.
\<close>

fun dict_store :: "('k \<rightharpoonup> 'v) \<Rightarrow> ('k \<times> 'v) list \<Rightarrow> ('k \<rightharpoonup> 'v)" where
  "dict_store m [] = m"
| "dict_store m ((k, v) # kvs) = dict_store (m(k \<mapsto> v)) kvs"

definition dict_literal :: "('k \<times> 'v) list \<Rightarrow> ('k \<rightharpoonup> 'v)" where
  "dict_literal kvs = dict_store Map.empty kvs"

text \<open>The number of entries of a dictionary, Python's \<^verbatim>\<open>len\<close>.\<close>

definition dict_len :: "('k \<rightharpoonup> 'v) \<Rightarrow> nat" where
  "dict_len d = card (dom d)"

section \<open>Entity types (node categories)\<close>

text \<open>
  The sixteen classes of lines 36 to 261, fields in declaration order with their
  annotation, default and description.
\<close>

definition Trip :: model_class where
  \<open>Trip = \<lparr>c_name = ''Trip'', c_fields = [
    \<lparr>f_name = ''start_date'', f_annotation = [PyStr, PyNoneType], f_default = Default NoneV,
     f_description = ''Trip start date (YYYY-MM-DD)''\<rparr>,
    \<lparr>f_name = ''end_date'', f_annotation = [PyStr, PyNoneType], f_default = Default NoneV,
     f_description = ''Trip end date (YYYY-MM-DD)''\<rparr>,
    \<lparr>f_name = ''destination'', f_annotation = [PyStr, PyNoneType], f_default = Default NoneV,
     f_description = ''Primary destination city or region''\<rparr>,
    \<lparr>f_name = ''is_private'', f_annotation = [PyBool, PyNoneType], f_default = Default NoneV,
     f_description = ''Whether the trip is private''\<rparr>
  ]\<rparr>\<close>

definition Flight :: model_class where
  \<open>Flight = \<lparr>c_name = ''Flight'', c_fields = [
    \<lparr>f_name = ''airline_code'', f_annotation = [PyStr, PyNoneType], f_default = Default NoneV,
     f_description = ''IATA airline code (e.g., "UA", "DL")''\<rparr>,
    \<lparr>f_name = ''flight_number'', f_annotation = [PyStr, PyNoneType], f_default = Default NoneV,
     f_description = ''Flight number (e.g., "1234")''\<rparr>,
    \<lparr>f_name = ''departure_airport'', f_annotation = [PyStr, PyNoneType], f_default = Default NoneV,
     f_description = ''Departure airport IATA code (e.g., "SFO")''\<rparr>,
    \<lparr>f_name = ''arrival_airport'', f_annotation = [PyStr, PyNoneType], f_default = Default NoneV,
     f_description = ''Arrival airport IATA code (e.g., "JFK")''\<rparr>,
    \<lparr>f_name = ''departure_time'', f_annotation = [PyStr, PyNoneType], f_default = Default NoneV,
     f_description = ''Scheduled departure date and time''\<rparr>,
    \<lparr>f_name = ''arrival_time'', f_annotation = [PyStr, PyNoneType], f_default = Default NoneV,
     f_description = ''Scheduled arrival date and time''\<rparr>,
    \<lparr>f_name = ''service_class'', f_annotation = [PyStr, PyNoneType], f_default = Default NoneV,
     f_description = ''Class of service (e.g., "economy", "business", "first")''\<rparr>,
    \<lparr>f_name = ''aircraft_type'', f_annotation = [PyStr, PyNoneType], f_default = Default NoneV,
     f_description = ''Aircraft type (e.g., "Boeing 737-800")''\<rparr>,
    \<lparr>f_name = ''seat_assignment'', f_annotation = [PyStr, PyNoneType], f_default = Default NoneV,
     f_description = ''Seat assignment (e.g., "12A")''\<rparr>,
    \<lparr>f_name = ''confirmation_number'', f_annotation = [PyStr, PyNoneType], f_default = Default NoneV,
     f_description = ''Booking confirmation number''\<rparr>,
    \<lparr>f_name = ''record_locator'', f_annotation = [PyStr, PyNoneType], f_default = Default NoneV,
     f_description = ''PNR record locator''\<rparr>
  ]\<rparr>\<close>

definition Lodging :: model_class where
  \<open>Lodging = \<lparr>c_name = ''Lodging'', c_fields = [
    \<lparr>f_name = ''check_in_date'', f_annotation = [PyStr, PyNoneType], f_default = Default NoneV,
     f_description = ''Check-in date''\<rparr>,
    \<lparr>f_name = ''check_out_date'', f_annotation = [PyStr, PyNoneType], f_default = Default NoneV,
     f_description = ''Check-out date''\<rparr>,
    \<lparr>f_name = ''room_type'', f_annotation = [PyStr, PyNoneType], f_default = Default NoneV,
     f_description = ''Room type (e.g., "King Suite")''\<rparr>,
    \<lparr>f_name = ''number_of_rooms'', f_annotation = [PyStr, PyNoneType], f_default = Default NoneV,
     f_description = ''Number of rooms booked''\<rparr>,
    \<lparr>f_name = ''number_of_guests'', f_annotation = [PyStr, PyNoneType], f_default = Default NoneV,
     f_description = ''Number of guests''\<rparr>,
    \<lparr>f_name = ''confirmation_number'', f_annotation = [PyStr, PyNoneType], f_default = Default NoneV,
     f_description = ''Booking confirmation number''\<rparr>
  ]\<rparr>\<close>

definition CarRental :: model_class where
  \<open>CarRental = \<lparr>c_name = ''CarRental'', c_fields = [
    \<lparr>f_name = ''pickup_date'', f_annotation = [PyStr, PyNoneType], f_default = Default NoneV,
     f_description = ''Pickup date and time''\<rparr>,
    \<lparr>f_name = ''dropoff_date'', f_annotation = [PyStr, PyNoneType], f_default = Default NoneV,
     f_description = ''Dropoff date and time''\<rparr>,
    \<lparr>f_name = ''car_type'', f_annotation = [PyStr, PyNoneType], f_default = Default NoneV,
     f_description = ''Vehicle category (e.g., "compact", "SUV", "luxury")''\<rparr>,
    \<lparr>f_name = ''car_description'', f_annotation = [PyStr, PyNoneType], f_default = Default NoneV,
     f_description = ''Vehicle description''\<rparr>,
    \<lparr>f_name = ''pickup_location'', f_annotation = [PyStr, PyNoneType], f_default = Default NoneV,
     f_description = ''Pickup location name''\<rparr>,
    \<lparr>f_name = ''dropoff_location'', f_annotation = [PyStr, PyNoneType], f_default = Default NoneV,
     f_description = ''Dropoff location name''\<rparr>,
    \<lparr>f_name = ''confirmation_number'', f_annotation = [PyStr, PyNoneType], f_default = Default NoneV,
     f_description = ''Booking confirmation number''\<rparr>
  ]\<rparr>\<close>

definition RailJourney :: model_class where
  \<open>RailJourney = \<lparr>c_name = ''RailJourney'', c_fields = [
    \<lparr>f_name = ''carrier'', f_annotation = [PyStr, PyNoneType], f_default = Default NoneV,
     f_description = ''Rail carrier name (e.g., "Amtrak", "Eurostar")''\<rparr>,
    \<lparr>f_name = ''train_number'', f_annotation = [PyStr, PyNoneType], f_default = Default NoneV,
     f_description = ''Train number''\<rparr>,
    \<lparr>f_name = ''departure_station'', f_annotation = [PyStr, PyNoneType], f_default = Default NoneV,
     f_description = ''Departure station name''\<rparr>,
    \<lparr>f_name = ''arrival_station'', f_annotation = [PyStr, PyNoneType], f_default = Default NoneV,
     f_description = ''Arrival station name''\<rparr>,
    \<lparr>f_name = ''departure_time'', f_annotation = [PyStr, PyNoneType], f_default = Default NoneV,
     f_description = ''Departure date and time''\<rparr>,
    \<lparr>f_name = ''arrival_time'', f_annotation = [PyStr, PyNoneType], f_default = Default NoneV,
     f_description = ''Arrival date and time''\<rparr>,
    \<lparr>f_name = ''service_class'', f_annotation = [PyStr, PyNoneType], f_default = Default NoneV,
     f_description = ''Class of service''\<rparr>,
    \<lparr>f_name = ''seat_assignment'', f_annotation = [PyStr, PyNoneType], f_default = Default NoneV,
     f_description = ''Seat or coach assignment''\<rparr>,
    \<lparr>f_name = ''confirmation_number'', f_annotation = [PyStr, PyNoneType], f_default = Default NoneV,
     f_description = ''Booking confirmation number''\<rparr>
  ]\<rparr>\<close>

definition Cruise :: model_class where
  \<open>Cruise = \<lparr>c_name = ''Cruise'', c_fields = [
    \<lparr>f_name = ''ship_name'', f_annotation = [PyStr, PyNoneType], f_default = Default NoneV,
     f_description = ''Name of the cruise ship''\<rparr>,
    \<lparr>f_name = ''cabin_number'', f_annotation = [PyStr, PyNoneType], f_default = Default NoneV,
     f_description = ''Cabin number''\<rparr>,
    \<lparr>f_name = ''cabin_type'', f_annotation = [PyStr, PyNoneType], f_default = Default NoneV,
     f_description = ''Cabin type (e.g., "interior", "balcony", "suite")''\<rparr>,
    \<lparr>f_name = ''departure_date'', f_annotation = [PyStr, PyNoneType], f_default = Default NoneV,
     f_description = ''Embarkation date''\<rparr>,
    \<lparr>f_name = ''return_date'', f_annotation = [PyStr, PyNoneType], f_default = Default NoneV,
     f_description = ''Disembarkation date''\<rparr>,
    \<lparr>f_name = ''departure_port'', f_annotation = [PyStr, PyNoneType], f_default = Default NoneV,
     f_description = ''Port of embarkation''\<rparr>,
    \<lparr>f_name = ''confirmation_number'', f_annotation = [PyStr, PyNoneType], f_default = Default NoneV,
     f_description = ''Booking confirmation number''\<rparr>
  ]\<rparr>\<close>

definition GroundTransport :: model_class where
  \<open>GroundTransport = \<lparr>c_name = ''GroundTransport'', c_fields = [
    \<lparr>f_name = ''transport_type'', f_annotation = [PyStr, PyNoneType], f_default = Default NoneV,
     f_description = ''Type of transport (e.g., "shuttle", "limousine", "bus", "taxi")''\<rparr>,
    \<lparr>f_name = ''carrier'', f_annotation = [PyStr, PyNoneType], f_default = Default NoneV,
     f_description = ''Transport provider name''\<rparr>,
    \<lparr>f_name = ''pickup_location'', f_annotation = [PyStr, PyNoneType], f_default = Default NoneV,
     f_description = ''Pickup location''\<rparr>,
    \<lparr>f_name = ''dropoff_location'', f_annotation = [PyStr, PyNoneType], f_default = Default NoneV,
     f_description = ''Dropoff location''\<rparr>,
    \<lparr>f_name = ''pickup_time'', f_annotation = [PyStr, PyNoneType], f_default = Default NoneV,
     f_description = ''Pickup date and time''\<rparr>,
    \<lparr>f_name = ''confirmation_number'', f_annotation = [PyStr, PyNoneType], f_default = Default NoneV,
     f_description = ''Booking confirmation number''\<rparr>
  ]\<rparr>\<close>

definition Restaurant :: model_class where
  \<open>Restaurant = \<lparr>c_name = ''Restaurant'', c_fields = [
    \<lparr>f_name = ''cuisine'', f_annotation = [PyStr, PyNoneType], f_default = Default NoneV,
     f_description = ''Type of cuisine''\<rparr>,
    \<lparr>f_name = ''reservation_time'', f_annotation = [PyStr, PyNoneType], f_default = Default NoneV,
     f_description = ''Reservation date and time''\<rparr>,
    \<lparr>f_name = ''party_size'', f_annotation = [PyStr, PyNoneType], f_default = Default NoneV,
     f_description = ''Number of diners''\<rparr>,
    \<lparr>f_name = ''price_range'', f_annotation = [PyStr, PyNoneType], f_default = Default NoneV,
     f_description = ''Price range indicator''\<rparr>,
    \<lparr>f_name = ''dress_code'', f_annotation = [PyStr, PyNoneType], f_default = Default NoneV,
     f_description = ''Dress code if applicable''\<rparr>,
    \<lparr>f_name = ''confirmation_number'', f_annotation = [PyStr, PyNoneType], f_default = Default NoneV,
     f_description = ''Reservation confirmation number''\<rparr>
  ]\<rparr>\<close>

definition Activity :: model_class where
  \<open>Activity = \<lparr>c_name = ''Activity'', c_fields = [
    \<lparr>f_name = ''activity_type'', f_annotation = [PyStr, PyNoneType], f_default = Default NoneV,
     f_description = ''Type of activity (e.g., "tour", "museum", "show", "excursion")''\<rparr>,
    \<lparr>f_name = ''start_time'', f_annotation = [PyStr, PyNoneType], f_default = Default NoneV,
     f_description = ''Activity start date and time''\<rparr>,
    \<lparr>f_name = ''end_time'', f_annotation = [PyStr, PyNoneType], f_default = Default NoneV,
     f_description = ''Activity end date and time''\<rparr>,
    \<lparr>f_name = ''venue'', f_annotation = [PyStr, PyNoneType], f_default = Default NoneV,
     f_description = ''Venue or location name''\<rparr>,
    \<lparr>f_name = ''confirmation_number'', f_annotation = [PyStr, PyNoneType], f_default = Default NoneV,
     f_description = ''Booking confirmation number''\<rparr>
  ]\<rparr>\<close>

definition Traveler :: model_class where
  \<open>Traveler = \<lparr>c_name = ''Traveler'', c_fields = [
    \<lparr>f_name = ''first_name'', f_annotation = [PyStr, PyNoneType], f_default = Default NoneV,
     f_description = ''First name''\<rparr>,
    \<lparr>f_name = ''last_name'', f_annotation = [PyStr, PyNoneType], f_default = Default NoneV,
     f_description = ''Last name''\<rparr>,
    \<lparr>f_name = ''email'', f_annotation = [PyStr, PyNoneType], f_default = Default NoneV,
     f_description = ''Email address''\<rparr>,
    \<lparr>f_name = ''frequent_traveler_number'', f_annotation = [PyStr, PyNoneType], f_default = Default NoneV,
     f_description = ''Loyalty or frequent traveler program number''\<rparr>,
    \<lparr>f_name = ''meal_preference'', f_annotation = [PyStr, PyNoneType], f_default = Default NoneV,
     f_description = ''Meal preference for flights''\<rparr>,
    \<lparr>f_name = ''seat_preference'', f_annotation = [PyStr, PyNoneType], f_default = Default NoneV,
     f_description = ''Seat preference (e.g., "window", "aisle")''\<rparr>
  ]\<rparr>\<close>

definition Airport :: model_class where
  \<open>Airport = \<lparr>c_name = ''Airport'', c_fields = [
    \<lparr>f_name = ''iata_code'', f_annotation = [PyStr, PyNoneType], f_default = Default NoneV,
     f_description = ''IATA airport code (e.g., "SFO", "LHR")''\<rparr>,
    \<lparr>f_name = ''city'', f_annotation = [PyStr, PyNoneType], f_default = Default NoneV,
     f_description = ''City the airport serves''\<rparr>,
    \<lparr>f_name = ''country'', f_annotation = [PyStr, PyNoneType], f_default = Default NoneV,
     f_description = ''Country code''\<rparr>,
    \<lparr>f_name = ''latitude'', f_annotation = [PyFloat, PyNoneType], f_default = Default NoneV,
     f_description = ''Airport latitude''\<rparr>,
    \<lparr>f_name = ''longitude'', f_annotation = [PyFloat, PyNoneType], f_default = Default NoneV,
     f_description = ''Airport longitude''\<rparr>
  ]\<rparr>\<close>

definition City :: model_class where
  \<open>City = \<lparr>c_name = ''City'', c_fields = [
    \<lparr>f_name = ''country'', f_annotation = [PyStr, PyNoneType], f_default = Default NoneV,
     f_description = ''Country the city is in''\<rparr>,
    \<lparr>f_name = ''state_or_region'', f_annotation = [PyStr, PyNoneType], f_default = Default NoneV,
     f_description = ''State, province, or region''\<rparr>,
    \<lparr>f_name = ''timezone'', f_annotation = [PyStr, PyNoneType], f_default = Default NoneV,
     f_description = ''IANA timezone (e.g., "America/New_York")''\<rparr>
  ]\<rparr>\<close>

definition Venue :: model_class where
  \<open>Venue = \<lparr>c_name = ''Venue'', c_fields = [
    \<lparr>f_name = ''venue_type'', f_annotation = [PyStr, PyNoneType], f_default = Default NoneV,
     f_description = ''Type of venue (e.g., "hotel", "restaurant", "museum", "train_station", "cruise_port")''\<rparr>,
    \<lparr>f_name = ''address'', f_annotation = [PyStr, PyNoneType], f_default = Default NoneV,
     f_description = ''Street address''\<rparr>,
    \<lparr>f_name = ''phone'', f_annotation = [PyStr, PyNoneType], f_default = Default NoneV,
     f_description = ''Phone number''\<rparr>,
    \<lparr>f_name = ''url'', f_annotation = [PyStr, PyNoneType], f_default = Default NoneV,
     f_description = ''Website URL''\<rparr>,
    \<lparr>f_name = ''latitude'', f_annotation = [PyFloat, PyNoneType], f_default = Default NoneV,
     f_description = ''Venue latitude''\<rparr>,
    \<lparr>f_name = ''longitude'', f_annotation = [PyFloat, PyNoneType], f_default = Default NoneV,
     f_description = ''Venue longitude''\<rparr>
  ]\<rparr>\<close>

definition Airline :: model_class where
  \<open>Airline = \<lparr>c_name = ''Airline'', c_fields = [
    \<lparr>f_name = ''iata_code'', f_annotation = [PyStr, PyNoneType], f_default = Default NoneV,
     f_description = ''IATA airline code (e.g., "UA", "BA")''\<rparr>,
    \<lparr>f_name = ''alliance'', f_annotation = [PyStr, PyNoneType], f_default = Default NoneV,
     f_description = ''Airline alliance (e.g., "Star Alliance", "oneworld")''\<rparr>
  ]\<rparr>\<close>

definition TransportProvider :: model_class where
  \<open>TransportProvider = \<lparr>c_name = ''TransportProvider'', c_fields = [
    \<lparr>f_name = ''provider_type'', f_annotation = [PyStr, PyNoneType], f_default = Default NoneV,
     f_description = ''Type of provider (e.g., "car_rental", "rail", "cruise_line", "shuttle", "ride_service")''\<rparr>,
    \<lparr>f_name = ''phone'', f_annotation = [PyStr, PyNoneType], f_default = Default NoneV,
     f_description = ''Contact phone number''\<rparr>,
    \<lparr>f_name = ''url'', f_annotation = [PyStr, PyNoneType], f_default = Default NoneV,
     f_description = ''Website URL''\<rparr>
  ]\<rparr>\<close>

definition LoyaltyProgram :: model_class where
  \<open>LoyaltyProgram = \<lparr>c_name = ''LoyaltyProgram'', c_fields = [
    \<lparr>f_name = ''program_type'', f_annotation = [PyStr, PyNoneType], f_default = Default NoneV,
     f_description = ''Type of program (e.g., "airline_miles", "hotel_points", "car_rental")''\<rparr>,
    \<lparr>f_name = ''balance'', f_annotation = [PyStr, PyNoneType], f_default = Default NoneV,
     f_description = ''Current points or miles balance''\<rparr>,
    \<lparr>f_name = ''elite_status'', f_annotation = [PyStr, PyNoneType], f_default = Default NoneV,
     f_description = ''Elite tier status (e.g., "Gold", "Platinum")''\<rparr>
  ]\<rparr>\<close>

section \<open>Edge types (relationship categories)\<close>

text \<open>
  The fourteen classes of lines 268 to 378; four of them declare no field.
\<close>

definition PartOfTrip :: model_class where
  "PartOfTrip = \<lparr>c_name = ''PartOfTrip'', c_fields = []\<rparr>"

definition DepartsFrom :: model_class where
  \<open>DepartsFrom = \<lparr>c_name = ''DepartsFrom'', c_fields = [
    \<lparr>f_name = ''scheduled_time'', f_annotation = [PyStr, PyNoneType], f_default = Default NoneV,
     f_description = ''Scheduled departure date and time''\<rparr>,
    \<lparr>f_name = ''terminal'', f_annotation = [PyStr, PyNoneType], f_default = Default NoneV,
     f_description = ''Terminal or platform''\<rparr>,
    \<lparr>f_name = ''gate'', f_annotation = [PyStr, PyNoneType], f_default = Default NoneV,
     f_description = ''Gate number''\<rparr>
  ]\<rparr>\<close>

definition ArrivesAt :: model_class where
  \<open>ArrivesAt = \<lparr>c_name = ''ArrivesAt'', c_fields = [
    \<lparr>f_name = ''scheduled_time'', f_annotation = [PyStr, PyNoneType], f_default = Default NoneV,
     f_description = ''Scheduled arrival date and time''\<rparr>,
    \<lparr>f_name = ''terminal'', f_annotation = [PyStr, PyNoneType], f_default = Default NoneV,
     f_description = ''Terminal or platform''\<rparr>,
    \<lparr>f_name = ''gate'', f_annotation = [PyStr, PyNoneType], f_default = Default NoneV,
     f_description = ''Gate number''\<rparr>,
    \<lparr>f_name = ''baggage_claim'', f_annotation = [PyStr, PyNoneType], f_default = Default NoneV,
     f_description = ''Baggage claim area''\<rparr>
  ]\<rparr>\<close>

definition LocatedAt :: model_class where
  "LocatedAt = \<lparr>c_name = ''LocatedAt'', c_fields = []\<rparr>"

definition LocatedIn :: model_class where
  "LocatedIn = \<lparr>c_name = ''LocatedIn'', c_fields = []\<rparr>"

definition OperatedBy :: model_class where
  \<open>OperatedBy = \<lparr>c_name = ''OperatedBy'', c_fields = [
    \<lparr>f_name = ''operating_code'', f_annotation = [PyStr, PyNoneType], f_default = Default NoneV,
     f_description = ''Operating carrier code if different from marketing carrier''\<rparr>
  ]\<rparr>\<close>

definition BookedWith :: model_class where
  \<open>BookedWith = \<lparr>c_name = ''BookedWith'', c_fields = [
    \<lparr>f_name = ''booking_site'', f_annotation = [PyStr, PyNoneType], f_default = Default NoneV,
     f_description = ''Name of the booking site or agency''\<rparr>,
    \<lparr>f_name = ''booking_reference'', f_annotation = [PyStr, PyNoneType], f_default = Default NoneV,
     f_description = ''Booking site confirmation number''\<rparr>,
    \<lparr>f_name = ''booking_date'', f_annotation = [PyStr, PyNoneType], f_default = Default NoneV,
     f_description = ''Date the booking was made''\<rparr>,
    \<lparr>f_name = ''total_cost'', f_annotation = [PyStr, PyNoneType], f_default = Default NoneV,
     f_description = ''Total cost of the booking''\<rparr>
  ]\<rparr>\<close>

definition TravelerOn :: model_class where
  \<open>TravelerOn = \<lparr>c_name = ''TravelerOn'', c_fields = [
    \<lparr>f_name = ''role'', f_annotation = [PyStr, PyNoneType], f_default = Default NoneV,
     f_description = ''Role of the traveler (e.g., "passenger", "guest", "driver", "participant", "reservation_holder")''\<rparr>,
    \<lparr>f_name = ''ticket_number'', f_annotation = [PyStr, PyNoneType], f_default = Default NoneV,
     f_description = ''Ticket number if applicable''\<rparr>
  ]\<rparr>\<close>

definition ConnectsTo :: model_class where
  \<open>ConnectsTo = \<lparr>c_name = ''ConnectsTo'', c_fields = [
    \<lparr>f_name = ''connection_time'', f_annotation = [PyStr, PyNoneType], f_default = Default NoneV,
     f_description = ''Layover or connection time between segments''\<rparr>,
    \<lparr>f_name = ''connection_airport'', f_annotation = [PyStr, PyNoneType], f_default = Default NoneV,
     f_description = ''Connection airport or station code''\<rparr>
  ]\<rparr>\<close>

definition MemberOf :: model_class where
  \<open>MemberOf = \<lparr>c_name = ''MemberOf'', c_fields = [
    \<lparr>f_name = ''member_number'', f_annotation = [PyStr, PyNoneType], f_default = Default NoneV,
     f_description = ''Membership or account number''\<rparr>,
    \<lparr>f_name = ''elite_status'', f_annotation = [PyStr, PyNoneType], f_default = Default NoneV,
     f_description = ''Elite tier status''\<rparr>
  ]\<rparr>\<close>

definition OfferedBy :: model_class where
  "OfferedBy = \<lparr>c_name = ''OfferedBy'', c_fields = []\<rparr>"

definition DestinationOf :: model_class where
  \<open>DestinationOf = \<lparr>c_name = ''DestinationOf'', c_fields = [
    \<lparr>f_name = ''role'', f_annotation = [PyStr, PyNoneType], f_default = Default NoneV,
     f_description = ''Whether this is an "origin" or "destination" of the trip''\<rparr>
  ]\<rparr>\<close>

definition PortOfCall :: model_class where
  \<open>PortOfCall = \<lparr>c_name = ''PortOfCall'', c_fields = [
    \<lparr>f_name = ''arrival_date'', f_annotation = [PyStr, PyNoneType], f_default = Default NoneV,
     f_description = ''Arrival date at port''\<rparr>,
    \<lparr>f_name = ''departure_date'', f_annotation = [PyStr, PyNoneType], f_default = Default NoneV,
     f_description = ''Departure date from port''\<rparr>
  ]\<rparr>\<close>

definition InvitedTo :: model_class where
  \<open>InvitedTo = \<lparr>c_name = ''InvitedTo'', c_fields = [
    \<lparr>f_name = ''is_read_only'', f_annotation = [PyBool, PyNoneType], f_default = Default NoneV,
     f_description = ''Whether the invitee has read-only access''\<rparr>,
    \<lparr>f_name = ''is_traveler'', f_annotation = [PyBool, PyNoneType], f_default = Default NoneV,
     f_description = ''Whether the invitee is also traveling on this trip''\<rparr>
  ]\<rparr>\<close>

section \<open>Configuration dictionaries\<close>

text \<open>
  The three dictionary displays of lines 384 to 484, each as the list of its items in
  source order and the dictionary built from it.
\<close>

definition ENTITY_TYPES_items :: "(string \<times> model_class) list" where
  "ENTITY_TYPES_items = [
    (''Trip'', Trip),
    (''Flight'', Flight),
    (''Lodging'', Lodging),
    (''CarRental'', CarRental),
    (''RailJourney'', RailJourney),
    (''Cruise'', Cruise),
    (''GroundTransport'', GroundTransport),
    (''Restaurant'', Restaurant),
    (''Activity'', Activity),
    (''Traveler'', Traveler),
    (''Airport'', Airport),
    (''City'', City),
    (''Venue'', Venue),
    (''Airline'', Airline),
    (''TransportProvider'', TransportProvider),
    (''LoyaltyProgram'', LoyaltyProgram)
  ]"

definition ENTITY_TYPES :: "string \<rightharpoonup> model_class" where
  "ENTITY_TYPES = dict_literal ENTITY_TYPES_items"

definition EDGE_TYPES_items :: "(string \<times> model_class) list" where
  "EDGE_TYPES_items = [
    (''PART_OF_TRIP'', PartOfTrip),
    (''DEPARTS_FROM'', DepartsFrom),
    (''ARRIVES_AT'', ArrivesAt),
    (''LOCATED_AT'', LocatedAt),
    (''LOCATED_IN'', LocatedIn),
    (''OPERATED_BY'', OperatedBy),
    (''BOOKED_WITH'', BookedWith),
    (''TRAVELER_ON'', TravelerOn),
    (''CONNECTS_TO'', ConnectsTo),
    (''MEMBER_OF'', MemberOf),
    (''OFFERED_BY'', OfferedBy),
    (''DESTINATION_OF'', DestinationOf),
    (''PORT_OF_CALL'', PortOfCall),
    (''INVITED_TO'', InvitedTo)
  ]"

definition EDGE_TYPES :: "string \<rightharpoonup> model_class" where
  "EDGE_TYPES = dict_literal EDGE_TYPES_items"

definition EDGE_TYPE_MAP_items :: "((string \<times> string) \<times> string list) list" where
  "EDGE_TYPE_MAP_items = [
    ((''Flight'', ''Trip''), [''PART_OF_TRIP'']),
    ((''Lodging'', ''Trip''), [''PART_OF_TRIP'']),
    ((''CarRental'', ''Trip''), [''PART_OF_TRIP'']),
    ((''RailJourney'', ''Trip''), [''PART_OF_TRIP'']),
    ((''Cruise'', ''Trip''), [''PART_OF_TRIP'']),
    ((''GroundTransport'', ''Trip''), [''PART_OF_TRIP'']),
    ((''Restaurant'', ''Trip''), [''PART_OF_TRIP'']),
    ((''Activity'', ''Trip''), [''PART_OF_TRIP'']),
    ((''Flight'', ''Airport''), [''DEPARTS_FROM'', ''ARRIVES_AT'']),
    ((''RailJourney'', ''Venue''), [''DEPARTS_FROM'', ''ARRIVES_AT'']),
    ((''Cruise'', ''Venue''), [''DEPARTS_FROM'', ''ARRIVES_AT'', ''PORT_OF_CALL'']),
    ((''GroundTransport'', ''Venue''), [''DEPARTS_FROM'', ''ARRIVES_AT'']),
    ((''CarRental'', ''Venue''), [''DEPARTS_FROM'', ''ARRIVES_AT'']),
    ((''Lodging'', ''Venue''), [''LOCATED_AT'']),
    ((''Restaurant'', ''Venue''), [''LOCATED_AT'']),
    ((''Activity'', ''Venue''), [''LOCATED_AT'']),
    ((''Airport'', ''City''), [''LOCATED_IN'']),
    ((''Venue'', ''City''), [''LOCATED_IN'']),
    ((''Trip'', ''City''), [''DESTINATION_OF'']),
    ((''Cruise'', ''City''), [''PORT_OF_CALL'']),
    ((''Flight'', ''Airline''), [''OPERATED_BY'']),
    ((''RailJourney'', ''TransportProvider''), [''OPERATED_BY'']),
    ((''Cruise'', ''TransportProvider''), [''OPERATED_BY'']),
    ((''GroundTransport'', ''TransportProvider''), [''OPERATED_BY'']),
    ((''CarRental'', ''TransportProvider''), [''OPERATED_BY'']),
    ((''Flight'', ''Entity''), [''BOOKED_WITH'']),
    ((''Lodging'', ''Entity''), [''BOOKED_WITH'']),
    ((''CarRental'', ''Entity''), [''BOOKED_WITH'']),
    ((''RailJourney'', ''Entity''), [''BOOKED_WITH'']),
    ((''Cruise'', ''Entity''), [''BOOKED_WITH'']),
    ((''GroundTransport'', ''Entity''), [''BOOKED_WITH'']),
    ((''Restaurant'', ''Entity''), [''BOOKED_WITH'']),
    ((''Activity'', ''Entity''), [''BOOKED_WITH'']),
    ((''Traveler'', ''Flight''), [''TRAVELER_ON'']),
    ((''Traveler'', ''Lodging''), [''TRAVELER_ON'']),
    ((''Traveler'', ''CarRental''), [''TRAVELER_ON'']),
    ((''Traveler'', ''RailJourney''), [''TRAVELER_ON'']),
    ((''Traveler'', ''Cruise''), [''TRAVELER_ON'']),
    ((''Traveler'', ''GroundTransport''), [''TRAVELER_ON'']),
    ((''Traveler'', ''Restaurant''), [''TRAVELER_ON'']),
    ((''Traveler'', ''Activity''), [''TRAVELER_ON'']),
    ((''Traveler'', ''Trip''), [''INVITED_TO'']),
    ((''Flight'', ''Flight''), [''CONNECTS_TO'']),
    ((''RailJourney'', ''RailJourney''), [''CONNECTS_TO'']),
    ((''GroundTransport'', ''GroundTransport''), [''CONNECTS_TO'']),
    ((''Traveler'', ''LoyaltyProgram''), [''MEMBER_OF'']),
    ((''LoyaltyProgram'', ''Airline''), [''OFFERED_BY'']),
    ((''LoyaltyProgram'', ''TransportProvider''), [''OFFERED_BY''])
  ]"

definition EDGE_TYPE_MAP :: "string \<times> string \<rightharpoonup> string list" where
  "EDGE_TYPE_MAP = dict_literal EDGE_TYPE_MAP_items"

text \<open>
  The entries of \<^verbatim>\<open>ENTITY_TYPES\<close> under its comment \<^verbatim>\<open># Travel reservations\<close>: the
  reservation and activity types.
\<close>

definition reservation_types :: "string list" where
  "reservation_types = [''Trip'', ''Flight'', ''Lodging'', ''CarRental'', ''RailJourney'',
     ''Cruise'', ''GroundTransport'', ''Restaurant'', ''Activity'']"

section \<open>Dictionary displays as maps\<close>

lemma dict_store_map_of: "dict_store m kvs = m ++ map_of (rev kvs)"
proof (induction m kvs rule: dict_store.induct)
  case (1 m)
  show ?case by simp
next
  case (2 m k v kvs)
  have "dict_store m ((k, v) # kvs) = dict_store (m(k \<mapsto> v)) kvs"
    by simp
  also have "\<dots> = m(k \<mapsto> v) ++ map_of (rev kvs)"
    by (rule "2.IH")
  also have "\<dots> = m ++ ([k \<mapsto> v] ++ map_of (rev kvs))"
    by (rule ext) (simp add: map_add_def split: option.split)
  also have "\<dots> = m ++ map_of (rev ((k, v) # kvs))"
    by simp
  finally show ?case .
qed

lemma dict_literal_rev: "dict_literal kvs = map_of (rev kvs)"
  by (simp add: dict_literal_def dict_store_map_of)

lemma dict_literal_distinct:
  assumes "distinct (map fst kvs)"
  shows "dict_literal kvs = map_of kvs"
proof -
  from assms have "distinct (map fst (rev kvs))"
    by (simp add: rev_map [symmetric])
  with assms have "map_of (rev kvs) = map_of kvs"
    by (simp add: map_of_inject_set)
  then show ?thesis by (simp add: dict_literal_rev)
qed

lemma dom_dict_literal: "dom (dict_literal kvs) = fst ` set kvs"
  by (simp add: dict_literal_rev dom_map_of_conv_image_fst)

lemma EDGE_TYPE_MAP_distinct: "distinct (map fst EDGE_TYPE_MAP_items)"
  by (simp add: EDGE_TYPE_MAP_items_def)

lemma EDGE_TYPE_MAP_iff:
  "EDGE_TYPE_MAP k = Some vs \<longleftrightarrow> (k, vs) \<in> set EDGE_TYPE_MAP_items"
  by (simp add: EDGE_TYPE_MAP_def dict_literal_distinct [OF EDGE_TYPE_MAP_distinct]
        map_of_eq_Some_iff [OF EDGE_TYPE_MAP_distinct])

lemma ENTITY_TYPES_dom:
  "dom ENTITY_TYPES = set [''Trip'', ''Flight'', ''Lodging'', ''CarRental'', ''RailJourney'',
     ''Cruise'', ''GroundTransport'', ''Restaurant'', ''Activity'', ''Traveler'', ''Airport'',
     ''City'', ''Venue'', ''Airline'', ''TransportProvider'', ''LoyaltyProgram'']"
  by (simp add: ENTITY_TYPES_def dom_dict_literal ENTITY_TYPES_items_def)

lemma EDGE_TYPES_dom:
  "dom EDGE_TYPES = set [''PART_OF_TRIP'', ''DEPARTS_FROM'', ''ARRIVES_AT'', ''LOCATED_AT'',
     ''LOCATED_IN'', ''OPERATED_BY'', ''BOOKED_WITH'', ''TRAVELER_ON'', ''CONNECTS_TO'',
     ''MEMBER_OF'', ''OFFERED_BY'', ''DESTINATION_OF'', ''PORT_OF_CALL'', ''INVITED_TO'']"
  by (simp add: EDGE_TYPES_def dom_dict_literal EDGE_TYPES_items_def)

lemma EDGE_TYPE_MAP_dom: "dom EDGE_TYPE_MAP = fst ` set EDGE_TYPE_MAP_items"
  by (simp add: EDGE_TYPE_MAP_def dom_dict_literal)

section \<open>Invariants of the compatibility map\<close>

lemma EDGE_TYPE_MAP_items_ok:
  "\<forall>(k, rs) \<in> set EDGE_TYPE_MAP_items. rs \<noteq> [] \<and> set rs \<subseteq> dom EDGE_TYPES"
  by (simp add: EDGE_TYPE_MAP_items_def EDGE_TYPES_dom)

text \<open>
  Claim C1.  For every key of \<^verbatim>\<open>EDGE_TYPE_MAP\<close> the associated value is a non-empty list,
  and every relationship-type name in that list is a key of \<^verbatim>\<open>EDGE_TYPES\<close>.
\<close>

theorem EDGE_TYPE_MAP_values_declared:
  assumes "EDGE_TYPE_MAP k = Some rs"
  shows "rs \<noteq> [] \<and> set rs \<subseteq> dom EDGE_TYPES"
proof -
  from assms have "(k, rs) \<in> set EDGE_TYPE_MAP_items"
    by (simp add: EDGE_TYPE_MAP_iff)
  with EDGE_TYPE_MAP_items_ok show ?thesis by blast
qed

theorem EDGE_TYPE_MAP_values_declared_witness:
  "EDGE_TYPE_MAP (''Cruise'', ''Venue'') = Some [''DEPARTS_FROM'', ''ARRIVES_AT'', ''PORT_OF_CALL'']
   \<and> [''DEPARTS_FROM'', ''ARRIVES_AT'', ''PORT_OF_CALL''] \<noteq> []
   \<and> set [''DEPARTS_FROM'', ''ARRIVES_AT'', ''PORT_OF_CALL''] \<subseteq> dom EDGE_TYPES"
proof -
  have h: "EDGE_TYPE_MAP (''Cruise'', ''Venue'')
             = Some [''DEPARTS_FROM'', ''ARRIVES_AT'', ''PORT_OF_CALL'']"
    by (simp add: EDGE_TYPE_MAP_iff EDGE_TYPE_MAP_items_def)
  from h EDGE_TYPE_MAP_values_declared [OF h] show ?thesis by (intro conjI) blast+
qed

lemma EDGE_TYPE_MAP_keys_ok:
  "\<forall>x \<in> set EDGE_TYPE_MAP_items.
     (fst (fst x) \<noteq> ''Entity'' \<longrightarrow> fst (fst x) \<in> dom ENTITY_TYPES) \<and>
     (snd (fst x) \<noteq> ''Entity'' \<longrightarrow> snd (fst x) \<in> dom ENTITY_TYPES)"
  by (simp add: EDGE_TYPE_MAP_items_def ENTITY_TYPES_dom)

text \<open>
  Claim C2.  Either element of every key of \<^verbatim>\<open>EDGE_TYPE_MAP\<close> is a key of
  \<^verbatim>\<open>ENTITY_TYPES\<close> unless it is the string \<^verbatim>\<open>Entity\<close>, which is not a key of
  \<^verbatim>\<open>ENTITY_TYPES\<close> and so is the one exception.
\<close>

theorem EDGE_TYPE_MAP_keys_declared:
  assumes "(s, t) \<in> dom EDGE_TYPE_MAP"
  shows "''Entity'' \<notin> dom ENTITY_TYPES \<and>
         (s \<noteq> ''Entity'' \<longrightarrow> s \<in> dom ENTITY_TYPES) \<and>
         (t \<noteq> ''Entity'' \<longrightarrow> t \<in> dom ENTITY_TYPES)"
proof -
  from assms obtain rs where "EDGE_TYPE_MAP (s, t) = Some rs"
    by (auto simp: dom_def)
  then have "((s, t), rs) \<in> set EDGE_TYPE_MAP_items"
    by (simp add: EDGE_TYPE_MAP_iff)
  with EDGE_TYPE_MAP_keys_ok
  have "(fst (fst ((s, t), rs)) \<noteq> ''Entity'' \<longrightarrow> fst (fst ((s, t), rs)) \<in> dom ENTITY_TYPES) \<and>
        (snd (fst ((s, t), rs)) \<noteq> ''Entity'' \<longrightarrow> snd (fst ((s, t), rs)) \<in> dom ENTITY_TYPES)"
    by (rule bspec)
  then have st: "(s \<noteq> ''Entity'' \<longrightarrow> s \<in> dom ENTITY_TYPES) \<and>
                 (t \<noteq> ''Entity'' \<longrightarrow> t \<in> dom ENTITY_TYPES)"
    by simp
  have e: "''Entity'' \<notin> dom ENTITY_TYPES"
    by (simp add: ENTITY_TYPES_dom)
  from e st show ?thesis by (rule conjI)
qed

theorem EDGE_TYPE_MAP_keys_declared_witness:
  "(''Flight'', ''Entity'') \<in> dom EDGE_TYPE_MAP \<and> ''Entity'' \<notin> dom ENTITY_TYPES
   \<and> ''Flight'' \<in> dom ENTITY_TYPES"
proof -
  have h: "(''Flight'', ''Entity'') \<in> dom EDGE_TYPE_MAP"
    by (simp add: EDGE_TYPE_MAP_dom EDGE_TYPE_MAP_items_def)
  show ?thesis using h EDGE_TYPE_MAP_keys_declared [OF h] by simp
qed

text \<open>
  Claim C3.  \<^verbatim>\<open>ENTITY_TYPES\<close> has exactly 16 entries, its keys are exactly the sixteen
  names listed, and \<^verbatim>\<open>EDGE_TYPES\<close> has exactly 14 entries.
\<close>

theorem table_sizes:
  "dict_len ENTITY_TYPES = 16 \<and>
   dom ENTITY_TYPES = {''Trip'', ''Flight'', ''Lodging'', ''CarRental'', ''RailJourney'',
     ''Cruise'', ''GroundTransport'', ''Restaurant'', ''Activity'', ''Traveler'', ''Airport'',
     ''City'', ''Venue'', ''Airline'', ''TransportProvider'', ''LoyaltyProgram''} \<and>
   dict_len EDGE_TYPES = 14"
proof (intro conjI)
  show "dict_len ENTITY_TYPES = 16"
    unfolding dict_len_def ENTITY_TYPES_dom by (subst distinct_card) simp_all
  show "dom ENTITY_TYPES = {''Trip'', ''Flight'', ''Lodging'', ''CarRental'', ''RailJourney'',
     ''Cruise'', ''GroundTransport'', ''Restaurant'', ''Activity'', ''Traveler'', ''Airport'',
     ''City'', ''Venue'', ''Airline'', ''TransportProvider'', ''LoyaltyProgram''}"
    by (simp add: ENTITY_TYPES_dom)
  show "dict_len EDGE_TYPES = 14"
    unfolding dict_len_def EDGE_TYPES_dom by (subst distinct_card) simp_all
qed

text \<open>
  Claim C4.  The lookups of \<^verbatim>\<open>(Flight, Trip)\<close>, \<^verbatim>\<open>(Flight, Airport)\<close>,
  \<^verbatim>\<open>(Cruise, Venue)\<close>, \<^verbatim>\<open>(Traveler, Trip)\<close> and \<^verbatim>\<open>(Traveler, Flight)\<close> in
  \<^verbatim>\<open>EDGE_TYPE_MAP\<close> yield exactly the stated lists, and the last two results differ.
\<close>

theorem EDGE_TYPE_MAP_lookups:
  "EDGE_TYPE_MAP (''Flight'', ''Trip'') = Some [''PART_OF_TRIP''] \<and>
   EDGE_TYPE_MAP (''Flight'', ''Airport'') = Some [''DEPARTS_FROM'', ''ARRIVES_AT''] \<and>
   EDGE_TYPE_MAP (''Cruise'', ''Venue'') = Some [''DEPARTS_FROM'', ''ARRIVES_AT'', ''PORT_OF_CALL''] \<and>
   EDGE_TYPE_MAP (''Traveler'', ''Trip'') = Some [''INVITED_TO''] \<and>
   EDGE_TYPE_MAP (''Traveler'', ''Flight'') = Some [''TRAVELER_ON''] \<and>
   EDGE_TYPE_MAP (''Traveler'', ''Trip'') \<noteq> EDGE_TYPE_MAP (''Traveler'', ''Flight'')"
proof -
  have a: "EDGE_TYPE_MAP (''Traveler'', ''Trip'') = Some [''INVITED_TO'']"
    by (simp add: EDGE_TYPE_MAP_iff EDGE_TYPE_MAP_items_def)
  have b: "EDGE_TYPE_MAP (''Traveler'', ''Flight'') = Some [''TRAVELER_ON'']"
    by (simp add: EDGE_TYPE_MAP_iff EDGE_TYPE_MAP_items_def)
  have c: "EDGE_TYPE_MAP (''Traveler'', ''Trip'') \<noteq> EDGE_TYPE_MAP (''Traveler'', ''Flight'')"
    unfolding a b by simp
  have d: "EDGE_TYPE_MAP (''Flight'', ''Trip'') = Some [''PART_OF_TRIP'']"
    by (simp add: EDGE_TYPE_MAP_iff EDGE_TYPE_MAP_items_def)
  have e: "EDGE_TYPE_MAP (''Flight'', ''Airport'') = Some [''DEPARTS_FROM'', ''ARRIVES_AT'']"
    by (simp add: EDGE_TYPE_MAP_iff EDGE_TYPE_MAP_items_def)
  have f: "EDGE_TYPE_MAP (''Cruise'', ''Venue'')
             = Some [''DEPARTS_FROM'', ''ARRIVES_AT'', ''PORT_OF_CALL'']"
    by (simp add: EDGE_TYPE_MAP_iff EDGE_TYPE_MAP_items_def)
  from a b c d e f show ?thesis by (intro conjI)
qed

lemma EDGE_TYPE_MAP_None:
  "k \<notin> fst ` set EDGE_TYPE_MAP_items \<Longrightarrow> EDGE_TYPE_MAP k = None"
  by (simp add: EDGE_TYPE_MAP_dom [symmetric] domIff)

lemma reservation_items:
  "\<forall>T \<in> set reservation_types. T \<noteq> ''Trip'' \<longrightarrow>
     ((T, ''Trip''), [''PART_OF_TRIP'']) \<in> set EDGE_TYPE_MAP_items \<and>
     ((T, ''Entity''), [''BOOKED_WITH'']) \<in> set EDGE_TYPE_MAP_items"
  by (simp add: reservation_types_def EDGE_TYPE_MAP_items_def)

text \<open>
  Claim C5, amended.  For every reservation or activity type \<open>T\<close> other than \<^verbatim>\<open>Trip\<close>
  itself, \<^verbatim>\<open>EDGE_TYPE_MAP\<close> has the key \<^verbatim>\<open>(T, Trip)\<close> and its list contains
  \<^verbatim>\<open>PART_OF_TRIP\<close>.
\<close>

theorem reservations_part_of_trip:
  assumes "T \<in> set reservation_types" and "T \<noteq> ''Trip''"
  shows "\<exists>rs. EDGE_TYPE_MAP (T, ''Trip'') = Some rs \<and> ''PART_OF_TRIP'' \<in> set rs"
proof -
  from reservation_items assms(1)
  have "T \<noteq> ''Trip'' \<longrightarrow>
     ((T, ''Trip''), [''PART_OF_TRIP'']) \<in> set EDGE_TYPE_MAP_items \<and>
     ((T, ''Entity''), [''BOOKED_WITH'']) \<in> set EDGE_TYPE_MAP_items"
    by (rule bspec)
  with assms(2) have "((T, ''Trip''), [''PART_OF_TRIP'']) \<in> set EDGE_TYPE_MAP_items"
    by simp
  then have "EDGE_TYPE_MAP (T, ''Trip'') = Some [''PART_OF_TRIP'']"
    by (simp only: EDGE_TYPE_MAP_iff)
  moreover have "''PART_OF_TRIP'' \<in> set [''PART_OF_TRIP'']"
    by simp
  ultimately show ?thesis by (intro exI conjI)
qed

theorem reservations_part_of_trip_witness:
  "''Cruise'' \<in> set reservation_types \<and> ''Cruise'' \<noteq> ''Trip'' \<and>
   (\<exists>rs. EDGE_TYPE_MAP (''Cruise'', ''Trip'') = Some rs \<and> ''PART_OF_TRIP'' \<in> set rs)"
proof -
  have a: "''Cruise'' \<in> set reservation_types"
    by (simp add: reservation_types_def)
  have b: "''Cruise'' \<noteq> ''Trip''"
    by simp
  from a b reservations_part_of_trip [OF a b] show ?thesis
    by (intro conjI)
qed

text \<open>
  Claim C5 as stated fails at \<^verbatim>\<open>Trip\<close>: it is listed among the reservation and
  activity types, and \<^verbatim>\<open>(Trip, Trip)\<close> is not a key of \<^verbatim>\<open>EDGE_TYPE_MAP\<close>: a trip is
  the container, not one of its own parts.
\<close>

theorem Trip_part_of_trip_counterexample:
  "''Trip'' \<in> set reservation_types \<and> EDGE_TYPE_MAP (''Trip'', ''Trip'') = None"
proof
  show "''Trip'' \<in> set reservation_types"
    by (simp add: reservation_types_def)
  show "EDGE_TYPE_MAP (''Trip'', ''Trip'') = None"
    by (rule EDGE_TYPE_MAP_None) (simp add: EDGE_TYPE_MAP_items_def)
qed

lemma connects_items:
  "\<forall>x \<in> set EDGE_TYPE_MAP_items.
     (''CONNECTS_TO'' \<in> set (snd x) \<longleftrightarrow> fst (fst x) = snd (fst x)) \<and>
     (''CONNECTS_TO'' \<in> set (snd x) \<longrightarrow>
        fst x \<in> {(''Flight'', ''Flight''), (''RailJourney'', ''RailJourney''),
                 (''GroundTransport'', ''GroundTransport'')})"
  by (simp add: EDGE_TYPE_MAP_items_def)

lemma connects_lookups:
  "EDGE_TYPE_MAP (''Flight'', ''Flight'') = Some [''CONNECTS_TO'']"
  "EDGE_TYPE_MAP (''RailJourney'', ''RailJourney'') = Some [''CONNECTS_TO'']"
  "EDGE_TYPE_MAP (''GroundTransport'', ''GroundTransport'') = Some [''CONNECTS_TO'']"
  by (simp_all add: EDGE_TYPE_MAP_iff EDGE_TYPE_MAP_items_def)

text \<open>
  Claim C6.  In an entry of \<^verbatim>\<open>EDGE_TYPE_MAP\<close> the name \<^verbatim>\<open>CONNECTS_TO\<close> is in the list if and
  only if the two elements of the key are the same type, and the keys whose list has it are
  exactly \<^verbatim>\<open>(Flight, Flight)\<close>, \<^verbatim>\<open>(RailJourney, RailJourney)\<close> and
  \<^verbatim>\<open>(GroundTransport, GroundTransport)\<close>.
\<close>

theorem connects_to_same_type:
  "(EDGE_TYPE_MAP (s, t) = Some rs \<longrightarrow> (''CONNECTS_TO'' \<in> set rs \<longleftrightarrow> s = t)) \<and>
   {k. \<exists>rs. EDGE_TYPE_MAP k = Some rs \<and> ''CONNECTS_TO'' \<in> set rs} =
     {(''Flight'', ''Flight''), (''RailJourney'', ''RailJourney''),
      (''GroundTransport'', ''GroundTransport'')}"
proof (rule conjI)
  show "EDGE_TYPE_MAP (s, t) = Some rs \<longrightarrow> (''CONNECTS_TO'' \<in> set rs \<longleftrightarrow> s = t)"
  proof
    assume "EDGE_TYPE_MAP (s, t) = Some rs"
    then have "((s, t), rs) \<in> set EDGE_TYPE_MAP_items"
      by (simp only: EDGE_TYPE_MAP_iff)
    with connects_items
    have "(''CONNECTS_TO'' \<in> set (snd ((s, t), rs))
             \<longleftrightarrow> fst (fst ((s, t), rs)) = snd (fst ((s, t), rs))) \<and>
          (''CONNECTS_TO'' \<in> set (snd ((s, t), rs)) \<longrightarrow>
             fst ((s, t), rs) \<in> {(''Flight'', ''Flight''), (''RailJourney'', ''RailJourney''),
                 (''GroundTransport'', ''GroundTransport'')})"
      by (rule bspec)
    then have "''CONNECTS_TO'' \<in> set (snd ((s, t), rs))
             \<longleftrightarrow> fst (fst ((s, t), rs)) = snd (fst ((s, t), rs))"
      by (rule conjunct1)
    then show "''CONNECTS_TO'' \<in> set rs \<longleftrightarrow> s = t"
      by (simp only: fst_conv snd_conv)
  qed
next
  let ?K = "{(''Flight'', ''Flight''), (''RailJourney'', ''RailJourney''),
             (''GroundTransport'', ''GroundTransport'')}"
  show "{k. \<exists>rs. EDGE_TYPE_MAP k = Some rs \<and> ''CONNECTS_TO'' \<in> set rs} = ?K"
  proof (rule set_eqI, rule iffI)
    fix k
    assume "k \<in> {k. \<exists>rs. EDGE_TYPE_MAP k = Some rs \<and> ''CONNECTS_TO'' \<in> set rs}"
    then have "\<exists>rs. EDGE_TYPE_MAP k = Some rs \<and> ''CONNECTS_TO'' \<in> set rs"
      by (simp only: mem_Collect_eq)
    then obtain rs where a: "EDGE_TYPE_MAP k = Some rs" and b: "''CONNECTS_TO'' \<in> set rs"
      by (elim exE conjE)
    from a have "(k, rs) \<in> set EDGE_TYPE_MAP_items"
      by (simp only: EDGE_TYPE_MAP_iff)
    with connects_items
    have "(''CONNECTS_TO'' \<in> set (snd (k, rs)) \<longleftrightarrow> fst (fst (k, rs)) = snd (fst (k, rs))) \<and>
          (''CONNECTS_TO'' \<in> set (snd (k, rs)) \<longrightarrow> fst (k, rs) \<in> ?K)"
      by (rule bspec)
    then have "''CONNECTS_TO'' \<in> set (snd (k, rs)) \<longrightarrow> fst (k, rs) \<in> ?K"
      by (rule conjunct2)
    then have "''CONNECTS_TO'' \<in> set rs \<longrightarrow> k \<in> ?K"
      by (simp only: fst_conv snd_conv)
    with b show "k \<in> ?K" by (rule rev_mp)
  next
    fix k
    assume "k \<in> ?K"
    then have "k = (''Flight'', ''Flight'') \<or> k = (''RailJourney'', ''RailJourney'')
               \<or> k = (''GroundTransport'', ''GroundTransport'')"
      by (simp only: insert_iff empty_iff simp_thms)
    then have "EDGE_TYPE_MAP k = Some [''CONNECTS_TO'']"
      using connects_lookups by (elim disjE) (simp_all only:)
    moreover have "''CONNECTS_TO'' \<in> set [''CONNECTS_TO'']"
      by simp
    ultimately have "\<exists>rs. EDGE_TYPE_MAP k = Some rs \<and> ''CONNECTS_TO'' \<in> set rs"
      by (intro exI conjI)
    then show "k \<in> {k. \<exists>rs. EDGE_TYPE_MAP k = Some rs \<and> ''CONNECTS_TO'' \<in> set rs}"
      by (simp only: mem_Collect_eq)
  qed
qed

theorem connects_to_same_type_witness:
  "EDGE_TYPE_MAP (''Flight'', ''Airport'') = Some [''DEPARTS_FROM'', ''ARRIVES_AT'']
   \<and> ''CONNECTS_TO'' \<notin> set [''DEPARTS_FROM'', ''ARRIVES_AT'']
   \<and> (''Flight'', ''Flight'')
      \<in> {k. \<exists>rs. EDGE_TYPE_MAP k = Some rs \<and> ''CONNECTS_TO'' \<in> set rs}"
proof -
  have h: "EDGE_TYPE_MAP (''Flight'', ''Airport'') = Some [''DEPARTS_FROM'', ''ARRIVES_AT'']"
    by (simp add: EDGE_TYPE_MAP_iff EDGE_TYPE_MAP_items_def)
  note c = connects_to_same_type [of "''Flight''" "''Airport''" "[''DEPARTS_FROM'', ''ARRIVES_AT'']"]
  from c have "EDGE_TYPE_MAP (''Flight'', ''Airport'') = Some [''DEPARTS_FROM'', ''ARRIVES_AT'']
      \<longrightarrow> (''CONNECTS_TO'' \<in> set [''DEPARTS_FROM'', ''ARRIVES_AT'']
            \<longleftrightarrow> ''Flight'' = ''Airport'')"
    by (rule conjunct1)
  with h have "''CONNECTS_TO'' \<in> set [''DEPARTS_FROM'', ''ARRIVES_AT'']
            \<longleftrightarrow> ''Flight'' = ''Airport''"
    by (rule rev_mp)
  then have n: "''CONNECTS_TO'' \<notin> set [''DEPARTS_FROM'', ''ARRIVES_AT'']"
    by simp
  from c have "{k. \<exists>rs. EDGE_TYPE_MAP k = Some rs \<and> ''CONNECTS_TO'' \<in> set rs} =
     {(''Flight'', ''Flight''), (''RailJourney'', ''RailJourney''),
      (''GroundTransport'', ''GroundTransport'')}"
    by (rule conjunct2)
  then have m: "(''Flight'', ''Flight'')
      \<in> {k. \<exists>rs. EDGE_TYPE_MAP k = Some rs \<and> ''CONNECTS_TO'' \<in> set rs}"
    by (simp only: insert_iff simp_thms)
  from h n m show ?thesis by (intro conjI)
qed

lemma Entity_never_source:
  "\<forall>x \<in> set EDGE_TYPE_MAP_items. fst (fst x) \<noteq> ''Entity''"
  by (simp add: EDGE_TYPE_MAP_items_def)

text \<open>
  Claim C7, amended.  For every reservation or activity type \<open>T\<close> other than \<^verbatim>\<open>Trip\<close>,
  \<^verbatim>\<open>EDGE_TYPE_MAP\<close> has the key \<^verbatim>\<open>(T, Entity)\<close> and its list contains \<^verbatim>\<open>BOOKED_WITH\<close>;
  and \<^verbatim>\<open>Entity\<close> is never the source element of a key.
\<close>

theorem reservations_booked_with:
  assumes "T \<in> set reservation_types" and "T \<noteq> ''Trip''"
  shows "(\<exists>rs. EDGE_TYPE_MAP (T, ''Entity'') = Some rs \<and> ''BOOKED_WITH'' \<in> set rs) \<and>
         (''Entity'', t) \<notin> dom EDGE_TYPE_MAP"
proof (rule conjI)
  from reservation_items assms(1)
  have "T \<noteq> ''Trip'' \<longrightarrow>
     ((T, ''Trip''), [''PART_OF_TRIP'']) \<in> set EDGE_TYPE_MAP_items \<and>
     ((T, ''Entity''), [''BOOKED_WITH'']) \<in> set EDGE_TYPE_MAP_items"
    by (rule bspec)
  with assms(2) have "((T, ''Entity''), [''BOOKED_WITH'']) \<in> set EDGE_TYPE_MAP_items"
    by simp
  then have "EDGE_TYPE_MAP (T, ''Entity'') = Some [''BOOKED_WITH'']"
    by (simp only: EDGE_TYPE_MAP_iff)
  moreover have "''BOOKED_WITH'' \<in> set [''BOOKED_WITH'']"
    by simp
  ultimately show "\<exists>rs. EDGE_TYPE_MAP (T, ''Entity'') = Some rs \<and> ''BOOKED_WITH'' \<in> set rs"
    by (intro exI conjI)
next
  show "(''Entity'', t) \<notin> dom EDGE_TYPE_MAP"
  proof
    assume "(''Entity'', t) \<in> dom EDGE_TYPE_MAP"
    then obtain rs where "EDGE_TYPE_MAP (''Entity'', t) = Some rs"
      by (auto simp: dom_def)
    then have "((''Entity'', t), rs) \<in> set EDGE_TYPE_MAP_items"
      by (simp only: EDGE_TYPE_MAP_iff)
    with Entity_never_source have "fst (fst ((''Entity'', t), rs)) \<noteq> ''Entity''"
      by (rule bspec)
    then show False by (simp only: fst_conv) simp
  qed
qed

theorem reservations_booked_with_witness:
  "''Activity'' \<in> set reservation_types \<and> ''Activity'' \<noteq> ''Trip'' \<and>
   (\<exists>rs. EDGE_TYPE_MAP (''Activity'', ''Entity'') = Some rs \<and> ''BOOKED_WITH'' \<in> set rs) \<and>
   (''Entity'', ''Trip'') \<notin> dom EDGE_TYPE_MAP"
proof -
  have a: "''Activity'' \<in> set reservation_types"
    by (simp add: reservation_types_def)
  have b: "''Activity'' \<noteq> ''Trip''"
    by simp
  note c = reservations_booked_with [OF a b, of "''Trip''"]
  from c have c1: "\<exists>rs. EDGE_TYPE_MAP (''Activity'', ''Entity'') = Some rs
                     \<and> ''BOOKED_WITH'' \<in> set rs"
    by (rule conjunct1)
  from c have c2: "(''Entity'', ''Trip'') \<notin> dom EDGE_TYPE_MAP"
    by (rule conjunct2)
  from a b c1 c2 show ?thesis
    by (intro conjI)
qed

text \<open>
  Claim C7 as stated fails at \<^verbatim>\<open>Trip\<close>: it is listed among the reservation and
  activity types, and \<^verbatim>\<open>(Trip, Entity)\<close> is not a key of \<^verbatim>\<open>EDGE_TYPE_MAP\<close>: a booking is
  made for a reservation, and a trip only groups reservations.
\<close>

theorem Trip_booked_with_counterexample:
  "''Trip'' \<in> set reservation_types \<and> EDGE_TYPE_MAP (''Trip'', ''Entity'') = None"
proof
  show "''Trip'' \<in> set reservation_types"
    by (simp add: reservation_types_def)
  show "EDGE_TYPE_MAP (''Trip'', ''Entity'') = None"
    by (rule EDGE_TYPE_MAP_None) (simp add: EDGE_TYPE_MAP_items_def)
qed

lemma edge_names_used:
  "set [''PART_OF_TRIP'', ''DEPARTS_FROM'', ''ARRIVES_AT'', ''LOCATED_AT'',
     ''LOCATED_IN'', ''OPERATED_BY'', ''BOOKED_WITH'', ''TRAVELER_ON'', ''CONNECTS_TO'',
     ''MEMBER_OF'', ''OFFERED_BY'', ''DESTINATION_OF'', ''PORT_OF_CALL'', ''INVITED_TO'']
   \<subseteq> (\<Union>x \<in> set EDGE_TYPE_MAP_items. set (snd x))"
  by (simp add: EDGE_TYPE_MAP_items_def)

text \<open>
  Claim C9.  Every key of \<^verbatim>\<open>EDGE_TYPES\<close> occurs in the list of at least one entry of
  \<^verbatim>\<open>EDGE_TYPE_MAP\<close>.
\<close>

theorem every_edge_type_used:
  assumes "r \<in> dom EDGE_TYPES"
  shows "\<exists>k rs. EDGE_TYPE_MAP k = Some rs \<and> r \<in> set rs"
proof -
  from assms edge_names_used have "r \<in> (\<Union>x \<in> set EDGE_TYPE_MAP_items. set (snd x))"
    unfolding EDGE_TYPES_dom by (rule subsetD [rotated])
  then obtain x where x: "x \<in> set EDGE_TYPE_MAP_items" and r: "r \<in> set (snd x)"
    by (rule UN_E)
  from x have "(fst x, snd x) \<in> set EDGE_TYPE_MAP_items"
    by (simp only: prod.collapse)
  then have "EDGE_TYPE_MAP (fst x) = Some (snd x)"
    by (simp only: EDGE_TYPE_MAP_iff)
  with r show ?thesis by (intro exI conjI)
qed

theorem every_edge_type_used_witness:
  "''PORT_OF_CALL'' \<in> dom EDGE_TYPES \<and>
   (\<exists>k rs. EDGE_TYPE_MAP k = Some rs \<and> ''PORT_OF_CALL'' \<in> set rs)"
proof -
  have a: "''PORT_OF_CALL'' \<in> dom EDGE_TYPES"
    by (simp add: EDGE_TYPES_dom)
  from a every_edge_type_used [OF a] show ?thesis
    by (rule conjI)
qed

lemma entity_names_used:
  "set [''Trip'', ''Flight'', ''Lodging'', ''CarRental'', ''RailJourney'',
     ''Cruise'', ''GroundTransport'', ''Restaurant'', ''Activity'', ''Traveler'', ''Airport'',
     ''City'', ''Venue'', ''Airline'', ''TransportProvider'', ''LoyaltyProgram'']
   \<subseteq> (\<Union>x \<in> set EDGE_TYPE_MAP_items. {fst (fst x), snd (fst x)})"
  by (simp add: EDGE_TYPE_MAP_items_def)

text \<open>
  Claim C10.  Every key of \<^verbatim>\<open>ENTITY_TYPES\<close> is the source or the target element of at
  least one key of \<^verbatim>\<open>EDGE_TYPE_MAP\<close>.
\<close>

theorem every_entity_type_used:
  assumes "e \<in> dom ENTITY_TYPES"
  shows "\<exists>s t. (s, t) \<in> dom EDGE_TYPE_MAP \<and> (e = s \<or> e = t)"
proof -
  from assms entity_names_used
  have "e \<in> (\<Union>x \<in> set EDGE_TYPE_MAP_items. {fst (fst x), snd (fst x)})"
    unfolding ENTITY_TYPES_dom by (rule subsetD [rotated])
  then obtain x where x: "x \<in> set EDGE_TYPE_MAP_items"
    and e: "e \<in> {fst (fst x), snd (fst x)}"
    by (rule UN_E)
  from x have "fst x \<in> dom EDGE_TYPE_MAP"
    unfolding EDGE_TYPE_MAP_dom by (rule imageI)
  then have k: "(fst (fst x), snd (fst x)) \<in> dom EDGE_TYPE_MAP"
    by (simp only: prod.collapse)
  from e have "e = fst (fst x) \<or> e = snd (fst x)"
    by (simp only: insert_iff empty_iff simp_thms)
  with k show ?thesis by (intro exI conjI)
qed

theorem every_entity_type_used_witness:
  "''Airline'' \<in> dom ENTITY_TYPES \<and>
   (\<exists>s t. (s, t) \<in> dom EDGE_TYPE_MAP \<and> (''Airline'' = s \<or> ''Airline'' = t))"
proof -
  have a: "''Airline'' \<in> dom ENTITY_TYPES"
    by (simp add: ENTITY_TYPES_dom)
  from a every_entity_type_used [OF a] show ?thesis
    by (rule conjI)
qed

section \<open>Attributes of the model classes\<close>

lemma dict_literal_SomeD: "dict_literal kvs k = Some v \<Longrightarrow> v \<in> snd ` set kvs"
proof -
  assume "dict_literal kvs k = Some v"
  then have "map_of (rev kvs) k = Some v"
    by (simp only: dict_literal_rev)
  then have "(k, v) \<in> set (rev kvs)"
    by (rule map_of_SomeD)
  then have "(k, v) \<in> set kvs"
    by simp
  then have "snd (k, v) \<in> snd ` set kvs"
    by (rule imageI)
  then show ?thesis by simp
qed

lemma optional_fields_construct:
  assumes "\<forall>f \<in> set (c_fields c). is_optional f"
  shows "missing_fields c given = []"
    and "construct_empty c = Inr (map (\<lambda>f. (f_name f, NoneV)) (c_fields c))"
proof -
  from assms have d: "\<forall>f \<in> set (c_fields c). f_default f = Default NoneV"
    by (simp add: is_optional_def)
  then have "filter (\<lambda>f. f_default f = Required \<and> f_name f \<notin> set given') (c_fields c) = []"
    for given'
    by (simp add: filter_empty_conv)
  then have m: "missing_fields c given' = []" for given'
    by (simp add: missing_fields_def)
  from m show "missing_fields c given = []" .
  from d have "map (\<lambda>f. (f_name f, case f_default f of Default v \<Rightarrow> v | Required \<Rightarrow> NoneV))
                 (c_fields c) = map (\<lambda>f. (f_name f, NoneV)) (c_fields c)"
    by (intro map_cong refl) simp
  with m show "construct_empty c = Inr (map (\<lambda>f. (f_name f, NoneV)) (c_fields c))"
    by (simp add: construct_empty_def)
qed

lemma entity_classes_fields:
  "\<forall>c \<in> snd ` set ENTITY_TYPES_items. \<forall>f \<in> set (c_fields c).
     is_optional f \<and> semantic_types f \<in> {[PyStr], [PyBool], [PyFloat]}"
  by (simp add: ENTITY_TYPES_items_def is_optional_def semantic_types_def
        Trip_def Flight_def Lodging_def CarRental_def RailJourney_def Cruise_def
        GroundTransport_def Restaurant_def Activity_def Traveler_def Airport_def City_def
        Venue_def Airline_def TransportProvider_def LoyaltyProgram_def)

lemma edge_classes_fields:
  "\<forall>c \<in> snd ` set EDGE_TYPES_items. \<forall>f \<in> set (c_fields c).
     is_optional f \<and> semantic_types f \<in> {[PyStr], [PyBool], [PyFloat]}"
  by (simp add: EDGE_TYPES_items_def is_optional_def semantic_types_def
        PartOfTrip_def DepartsFrom_def ArrivesAt_def LocatedAt_def LocatedIn_def
        OperatedBy_def BookedWith_def TravelerOn_def ConnectsTo_def MemberOf_def
        OfferedBy_def DestinationOf_def PortOfCall_def InvitedTo_def)

text \<open>
  Claim C8.  For every class registered in \<^verbatim>\<open>ENTITY_TYPES\<close> or \<^verbatim>\<open>EDGE_TYPES\<close>, every
  declared attribute is optional with default \<^verbatim>\<open>None\<close> and its declared semantic type is
  one of \<^verbatim>\<open>str\<close>, \<^verbatim>\<open>bool\<close> and \<^verbatim>\<open>float\<close>; whichever attributes are given, none of the
  others is missing, and the instance with no attribute set is valid, all its attributes
  being \<^verbatim>\<open>None\<close>.
\<close>

theorem all_attributes_optional:
  assumes "ENTITY_TYPES n = Some c \<or> EDGE_TYPES n = Some c"
  shows "(\<forall>f \<in> set (c_fields c).
            is_optional f \<and> semantic_types f \<in> {[PyStr], [PyBool], [PyFloat]}) \<and>
         missing_fields c given = [] \<and>
         construct_empty c = Inr (map (\<lambda>f. (f_name f, NoneV)) (c_fields c))"
proof -
  from assms
  have "c \<in> snd ` set ENTITY_TYPES_items \<or> c \<in> snd ` set EDGE_TYPES_items"
    unfolding ENTITY_TYPES_def EDGE_TYPES_def
    by (elim disjE) (drule dict_literal_SomeD, simp)+
  with entity_classes_fields edge_classes_fields
  have a: "\<forall>f \<in> set (c_fields c).
             is_optional f \<and> semantic_types f \<in> {[PyStr], [PyBool], [PyFloat]}"
    by (elim disjE) (drule (1) bspec, assumption)+
  then have "\<forall>f \<in> set (c_fields c). is_optional f"
    by simp
  then have "missing_fields c given = []"
    and "construct_empty c = Inr (map (\<lambda>f. (f_name f, NoneV)) (c_fields c))"
    by (rule optional_fields_construct)+
  with a show ?thesis by (intro conjI)
qed

theorem all_attributes_optional_witness:
  "ENTITY_TYPES ''Airport'' = Some Airport \<and>
   is_optional (c_fields Airport ! 3) \<and>
   semantic_types (c_fields Airport ! 3) \<in> {[PyStr], [PyBool], [PyFloat]} \<and>
   missing_fields Airport [''city''] = [] \<and>
   construct_empty Airport = Inr [(''iata_code'', NoneV), (''city'', NoneV),
     (''country'', NoneV), (''latitude'', NoneV), (''longitude'', NoneV)]"
proof -
  have d: "distinct (map fst ENTITY_TYPES_items)"
    by (simp add: ENTITY_TYPES_items_def)
  have h: "ENTITY_TYPES ''Airport'' = Some Airport"
    unfolding ENTITY_TYPES_def dict_literal_distinct [OF d]
    by (simp add: ENTITY_TYPES_items_def)
  then have h': "ENTITY_TYPES ''Airport'' = Some Airport \<or> EDGE_TYPES ''Airport'' = Some Airport"
    by (rule disjI1)
  note c = all_attributes_optional [OF h', of "[''city'']"]
  have e: "map (\<lambda>f. (f_name f, NoneV)) (c_fields Airport) =
      [(''iata_code'', NoneV), (''city'', NoneV),
       (''country'', NoneV), (''latitude'', NoneV), (''longitude'', NoneV)]"
    by (simp add: Airport_def)
  have m: "c_fields Airport ! 3 \<in> set (c_fields Airport)"
    by (simp add: Airport_def)
  from c have "\<forall>f \<in> set (c_fields Airport).
      is_optional f \<and> semantic_types f \<in> {[PyStr], [PyBool], [PyFloat]}"
    by (rule conjunct1)
  from this m have f: "is_optional (c_fields Airport ! 3) \<and>
      semantic_types (c_fields Airport ! 3) \<in> {[PyStr], [PyBool], [PyFloat]}"
    by (rule bspec)
  from c have g: "missing_fields Airport [''city''] = [] \<and>
      construct_empty Airport = Inr (map (\<lambda>f. (f_name f, NoneV)) (c_fields Airport))"
    by (rule conjunct2)
  from h f g show ?thesis unfolding e by (intro conjI) (elim conjE, assumption)+
qed

end
